theory Spec2Isabelle
  imports Complex_Main
begin

section \<open>The LLM inference calculator (inference_calculator.py)\<close>

text \<open>
  A shallow embedding of the class \<open>LLMInferenceCalculator\<close>. Python's unbounded
  integers are \<open>int\<close>. Python's floats are idealised as exact \<open>real\<close> numbers: the
  formulas are embedded operation by operation, in the order the source evaluates them,
  but rounding and the finite range of a double are not part of the model. Every
  dictionary subscript of the source is a lookup that can raise \<open>KeyError\<close>, the
  division by a table entry can raise \<open>ZeroDivisionError\<close>, and the \<open>ValueError\<close>s of
  \<open>calculate\<close> are values of the same error type.
\<close>

subsection \<open>Enumerations and data classes\<close>

datatype ModelSize = SEVEN_B | THIRTEEN_B | GPT4

datatype HardwareType = CPU | GPU_4GB | GPU_8GB | GPU_12GB | GPU_16GB | GPU_24GB | GPU_32GB

datatype DeploymentMode = LOCAL | API

record ModelSpecs =
  parameters :: int
  layers :: int
  heads :: int
  head_dim :: int
  context_length :: int
  vocabulary_size :: int

record HardwareSpecs =
  vram_gb :: real
  memory_bandwidth_gbps :: real
  compute_flops :: real
  power_watts :: real
  cost_usd :: real

record CalculationResult =
  latency_seconds :: real
  memory_usage_gb :: real
  cost_per_request_usd :: real
  hardware_compatible :: bool
  recommendations :: "string list"

subsection \<open>Errors\<close>

text \<open>
  \<open>InvalidInputParameter v c\<close> is \<open>ValueError(f"Invalid input parameter: {e}")\<close>, where
  \<open>e\<close> is the enum's own error "\<open>repr v\<close> is not a valid \<open>c\<close>": it carries the rejected
  string \<open>v\<close> and the name \<open>c\<close> of the enum class that rejected it.
  \<open>TokensMustBePositive\<close> is \<open>ValueError("Tokens must be positive")\<close> and
  \<open>BatchSizeMustBePositive\<close> is \<open>ValueError("Batch size must be positive")\<close>.
\<close>

datatype error =
    InvalidInputParameter string string
  | TokensMustBePositive
  | BatchSizeMustBePositive
  | KeyError
  | ZeroDivisionError


text \<open>Sequencing of two steps, the first of which may raise.\<close>

definition and_then :: "error + 'a \<Rightarrow> ('a \<Rightarrow> error + 'b) \<Rightarrow> error + 'b" where
  "and_then r f = (case r of Inl e \<Rightarrow> Inl e | Inr x \<Rightarrow> f x)"

text \<open>The subscript \<open>d[k]\<close> of a dictionary.\<close>

definition getitem :: "('k \<rightharpoonup> 'v) \<Rightarrow> 'k \<Rightarrow> error + 'v" where
  "getitem d k = (case d k of None \<Rightarrow> Inl KeyError | Some v \<Rightarrow> Inr v)"

text \<open>True division \<open>a / b\<close> by a divisor that is read from a table.\<close>

definition truediv :: "real \<Rightarrow> real \<Rightarrow> error + real" where
  "truediv a b = (if b = 0 then Inl ZeroDivisionError else Inr (a / b))"

subsection \<open>The tables built by \<open>__init__\<close>\<close>

definition model_specs :: "ModelSize \<rightharpoonup> ModelSpecs" where
  "model_specs = map_of
    [(SEVEN_B, \<lparr>parameters = 7300000000, layers = 32, heads = 32, head_dim = 128,
        context_length = 8192, vocabulary_size = 32000\<rparr>),
     (THIRTEEN_B, \<lparr>parameters = 13000000000, layers = 40, heads = 40, head_dim = 128,
        context_length = 4096, vocabulary_size = 32000\<rparr>),
     (GPT4, \<lparr>parameters = 1760000000000, layers = 96, heads = 96, head_dim = 128,
        context_length = 8192, vocabulary_size = 100000\<rparr>)]"

definition hardware_specs :: "HardwareType \<rightharpoonup> HardwareSpecs" where
  "hardware_specs = map_of
    [(CPU, \<lparr>vram_gb = 0, memory_bandwidth_gbps = 50, compute_flops = 100000000000,
        power_watts = 65, cost_usd = 200\<rparr>),
     (GPU_4GB, \<lparr>vram_gb = 4, memory_bandwidth_gbps = 112, compute_flops = 2000000000000,
        power_watts = 75, cost_usd = 150\<rparr>),
     (GPU_8GB, \<lparr>vram_gb = 8, memory_bandwidth_gbps = 448, compute_flops = 20000000000000,
        power_watts = 220, cost_usd = 500\<rparr>),
     (GPU_12GB, \<lparr>vram_gb = 12, memory_bandwidth_gbps = 504, compute_flops = 30000000000000,
        power_watts = 320, cost_usd = 700\<rparr>),
     (GPU_16GB, \<lparr>vram_gb = 16, memory_bandwidth_gbps = 760, compute_flops = 40000000000000,
        power_watts = 320, cost_usd = 1200\<rparr>),
     (GPU_24GB, \<lparr>vram_gb = 24, memory_bandwidth_gbps = 1008, compute_flops = 83000000000000,
        power_watts = 450, cost_usd = 1600\<rparr>),
     (GPU_32GB, \<lparr>vram_gb = 32, memory_bandwidth_gbps = 1008, compute_flops = 83000000000000,
        power_watts = 450, cost_usd = 1600\<rparr>)]"

definition api_pricing :: "ModelSize \<rightharpoonup> (string \<rightharpoonup> real)" where
  "api_pricing = map_of
    [(SEVEN_B, map_of [(''input'', 0.0), (''output'', 0.0)]),
     (THIRTEEN_B, map_of [(''input'', 0.0002), (''output'', 0.0004)]),
     (GPT4, map_of [(''input'', 0.01), (''output'', 0.03)])]"

definition performance_baselines :: "ModelSize \<rightharpoonup> (HardwareType \<rightharpoonup> real)" where
  "performance_baselines = map_of
    [(SEVEN_B, map_of [(CPU, 3), (GPU_4GB, 8), (GPU_8GB, 15), (GPU_12GB, 25),
        (GPU_16GB, 35), (GPU_24GB, 45), (GPU_32GB, 50)]),
     (THIRTEEN_B, map_of [(CPU, 1), (GPU_4GB, 3), (GPU_8GB, 6), (GPU_12GB, 10),
        (GPU_16GB, 15), (GPU_24GB, 25), (GPU_32GB, 30)]),
     (GPT4, map_of [(CPU, 0.1), (GPU_4GB, 0.1), (GPU_8GB, 0.1), (GPU_12GB, 0.1),
        (GPU_16GB, 0.1), (GPU_24GB, 0.1), (GPU_32GB, 0.1)])]"

subsection \<open>The calculations\<close>

definition calculate_memory_usage ::
  "ModelSize \<Rightarrow> int \<Rightarrow> int \<Rightarrow> HardwareType \<Rightarrow> error + real" where
  "calculate_memory_usage model_size tokens batch_size hardware_type =
     and_then (getitem model_specs model_size) (\<lambda>specs.
       let model_memory_gb = real_of_int (parameters specs * 2) / real_of_int (1024 ^ 3);
           kv_cache_bytes = 2 * layers specs * heads specs * head_dim specs *
                            min tokens (context_length specs) * batch_size * 2;
           kv_cache_gb = real_of_int kv_cache_bytes / real_of_int (1024 ^ 3);
           activation_memory_gb =
             real_of_int (tokens * parameters specs * 2) / real_of_int (1024 ^ 3) * 0.1;
           total_memory = model_memory_gb + kv_cache_gb + activation_memory_gb
       in Inr (total_memory * 1.2))"

definition calculate_latency ::
  "ModelSize \<Rightarrow> int \<Rightarrow> int \<Rightarrow> HardwareType \<Rightarrow> DeploymentMode \<Rightarrow> error + real" where
  "calculate_latency model_size tokens batch_size hardware_type deployment_mode =
     (if deployment_mode = API then
        let base_latency = 2.0;
            processing_time = real_of_int tokens / 50
        in Inr (base_latency + processing_time)
      else
        and_then (getitem model_specs model_size) (\<lambda>specs.
        and_then (getitem hardware_specs hardware_type) (\<lambda>hardware.
        and_then (getitem performance_baselines model_size) (\<lambda>row.
        and_then (getitem row hardware_type) (\<lambda>tokens_per_sec.
        and_then (truediv (real_of_int tokens) tokens_per_sec) (\<lambda>compute_time.
          let memory_overhead = 0.1
          in Inr (compute_time * (1 + memory_overhead))))))))"

definition calculate_cost ::
  "ModelSize \<Rightarrow> int \<Rightarrow> int \<Rightarrow> HardwareType \<Rightarrow> DeploymentMode \<Rightarrow> error + real" where
  "calculate_cost model_size tokens batch_size hardware_type deployment_mode =
     (if deployment_mode = API then
        and_then (getitem api_pricing model_size) (\<lambda>pricing.
          let input_tokens = real_of_int tokens * 0.7;
              output_tokens = real_of_int tokens * 0.3
          in and_then (getitem pricing ''input'') (\<lambda>input_price.
               let input_cost = (input_tokens / 1000) * input_price
               in and_then (getitem pricing ''output'') (\<lambda>output_price.
                    let output_cost = (output_tokens / 1000) * output_price
                    in Inr (input_cost + output_cost))))
      else
        and_then (getitem hardware_specs hardware_type) (\<lambda>hardware.
        and_then (calculate_latency model_size tokens batch_size hardware_type deployment_mode)
          (\<lambda>latency.
            let hardware_cost_per_hour = cost_usd hardware / real_of_int (3 * 365 * 8);
                electricity_cost_per_hour = (power_watts hardware / 1000) * 0.12;
                total_cost_per_hour = hardware_cost_per_hour + electricity_cost_per_hour;
                cost_per_request = (total_cost_per_hour / 3600) * latency
            in Inr cost_per_request)))"

definition check_hardware_compatibility :: "ModelSize \<Rightarrow> HardwareType \<Rightarrow> error + bool" where
  "check_hardware_compatibility model_size hardware_type =
     (if hardware_type = CPU then Inr True
      else
        and_then (calculate_memory_usage model_size 2048 1 hardware_type) (\<lambda>required_memory.
        and_then (getitem hardware_specs hardware_type) (\<lambda>hardware.
          let available_memory = vram_gb hardware
          in Inr (available_memory \<ge> required_memory))))"

text \<open>
  The list \<open>recommendations\<close> is threaded through the statements of the source; each
  \<open>if\<close> statement either appends its string or leaves the list as it is.
\<close>

definition append_if :: "bool \<Rightarrow> string \<Rightarrow> string list \<Rightarrow> string list" where
  "append_if c s recs = (if c then recs @ [s] else recs)"

definition generate_recommendations ::
  "ModelSize \<Rightarrow> int \<Rightarrow> int \<Rightarrow> HardwareType \<Rightarrow> DeploymentMode \<Rightarrow> error + string list" where
  "generate_recommendations model_size tokens batch_size hardware_type deployment_mode =
     and_then
       (if deployment_mode = LOCAL then
          and_then (check_hardware_compatibility model_size hardware_type) (\<lambda>compatible.
            let r1 = append_if (\<not> compatible)
                       ''Hardware incompatible - consider GPU with more VRAM'' [];
                r2 = append_if (hardware_type = CPU \<and> model_size \<noteq> SEVEN_B)
                       ''CPU inference will be very slow for this model size'' r1;
                r3 = append_if (tokens > 2048)
                       ''Long sequences may cause memory issues'' r2
            in Inr r3)
        else if deployment_mode = API then
          let r4 = append_if (model_size = GPT4 \<and> tokens > 1000)
                     ''GPT-4 costs can be high for long sequences'' [];
              r5 = append_if (batch_size > 1)
                     ''API deployment typically doesn't support batching'' r4
          in Inr r5
        else Inr [])
       (\<lambda>recs.
          let r6 = append_if (batch_size > 4)
                     ''Large batch sizes may cause memory issues'' recs;
              r7 = append_if (tokens > 4096)
                     ''Consider chunking long sequences'' r6
          in Inr r7)"

subsection \<open>The entry point\<close>

text \<open>The value of each enum member.\<close>

fun ModelSize_value :: "ModelSize \<Rightarrow> string" where
  "ModelSize_value SEVEN_B = ''7B''"
| "ModelSize_value THIRTEEN_B = ''13B''"
| "ModelSize_value GPT4 = ''GPT-4''"

fun HardwareType_value :: "HardwareType \<Rightarrow> string" where
  "HardwareType_value CPU = ''CPU''"
| "HardwareType_value GPU_4GB = ''GPU_4GB''"
| "HardwareType_value GPU_8GB = ''GPU_8GB''"
| "HardwareType_value GPU_12GB = ''GPU_12GB''"
| "HardwareType_value GPU_16GB = ''GPU_16GB''"
| "HardwareType_value GPU_24GB = ''GPU_24GB''"
| "HardwareType_value GPU_32GB = ''GPU_32GB''"

fun DeploymentMode_value :: "DeploymentMode \<Rightarrow> string" where
  "DeploymentMode_value LOCAL = ''local''"
| "DeploymentMode_value API = ''api''"

text \<open>
  The enum calls \<open>ModelSize(s)\<close>, \<open>HardwareType(s)\<close> and \<open>DeploymentMode(s)\<close>: the
  member whose value is \<open>s\<close>, or a \<open>ValueError\<close>, which \<open>calculate\<close> catches and
  raises again as "Invalid input parameter: ...".
\<close>

definition ModelSize_of :: "string \<Rightarrow> error + ModelSize" where
  "ModelSize_of s =
     (case find (\<lambda>m. ModelSize_value m = s) [SEVEN_B, THIRTEEN_B, GPT4] of
        Some m \<Rightarrow> Inr m
      | None \<Rightarrow> Inl (InvalidInputParameter s ''ModelSize''))"

definition HardwareType_of :: "string \<Rightarrow> error + HardwareType" where
  "HardwareType_of s =
     (case find (\<lambda>h. HardwareType_value h = s)
             [CPU, GPU_4GB, GPU_8GB, GPU_12GB, GPU_16GB, GPU_24GB, GPU_32GB] of
        Some h \<Rightarrow> Inr h
      | None \<Rightarrow> Inl (InvalidInputParameter s ''HardwareType''))"

definition DeploymentMode_of :: "string \<Rightarrow> error + DeploymentMode" where
  "DeploymentMode_of s =
     (case find (\<lambda>d. DeploymentMode_value d = s) [LOCAL, API] of
        Some d \<Rightarrow> Inr d
      | None \<Rightarrow> Inl (InvalidInputParameter s ''DeploymentMode''))"

definition calculate ::
  "string \<Rightarrow> int \<Rightarrow> int \<Rightarrow> string \<Rightarrow> string \<Rightarrow> error + CalculationResult" where
  "calculate model_size tokens batch_size hardware_type deployment_mode =
     and_then (ModelSize_of model_size) (\<lambda>model_enum.
     and_then (HardwareType_of hardware_type) (\<lambda>hardware_enum.
     and_then (DeploymentMode_of deployment_mode) (\<lambda>deployment_enum.
       if tokens \<le> 0 then Inl TokensMustBePositive
       else if batch_size \<le> 0 then Inl BatchSizeMustBePositive
       else
         and_then (calculate_memory_usage model_enum tokens batch_size hardware_enum)
           (\<lambda>memory_usage.
         and_then (calculate_latency model_enum tokens batch_size hardware_enum deployment_enum)
           (\<lambda>latency.
         and_then (calculate_cost model_enum tokens batch_size hardware_enum deployment_enum)
           (\<lambda>cost.
         and_then (check_hardware_compatibility model_enum hardware_enum)
           (\<lambda>compatible.
         and_then (generate_recommendations model_enum tokens batch_size
                     hardware_enum deployment_enum)
           (\<lambda>recs.
             Inr \<lparr>latency_seconds = latency, memory_usage_gb = memory_usage,
                  cost_per_request_usd = cost, hardware_compatible = compatible,
                  recommendations = recs\<rparr>))))))))"

subsection \<open>The tables and the memory formula as the specification prints them\<close>

text \<open>
  The canonical constants of section 4.1 of the specification and the memory formula of
  section 4.2, written from the specification's words. The theorems below compare the
  code with them.
\<close>

fun spec_parameters :: "ModelSize \<Rightarrow> int" where
  "spec_parameters SEVEN_B = 7300000000"
| "spec_parameters THIRTEEN_B = 13000000000"
| "spec_parameters GPT4 = 1760000000000"

fun spec_layers :: "ModelSize \<Rightarrow> int" where
  "spec_layers SEVEN_B = 32"
| "spec_layers THIRTEEN_B = 40"
| "spec_layers GPT4 = 96"

fun spec_heads :: "ModelSize \<Rightarrow> int" where
  "spec_heads SEVEN_B = 32"
| "spec_heads THIRTEEN_B = 40"
| "spec_heads GPT4 = 96"

fun spec_headDim :: "ModelSize \<Rightarrow> int" where
  "spec_headDim m = 128"

fun spec_contextLength :: "ModelSize \<Rightarrow> int" where
  "spec_contextLength SEVEN_B = 8192"
| "spec_contextLength THIRTEEN_B = 4096"
| "spec_contextLength GPT4 = 8192"

definition spec_memory_gb :: "ModelSize \<Rightarrow> int \<Rightarrow> int \<Rightarrow> real" where
  "spec_memory_gb m t b =
     (real_of_int (spec_parameters m * 2)
      + real_of_int (2 * spec_layers m * spec_heads m * spec_headDim m
                     * min t (spec_contextLength m) * b * 2)
      + real_of_int t * real_of_int (spec_parameters m) * 2 * 0.1) / 2 ^ 30 * 1.2"

fun spec_PerformanceBaseline :: "ModelSize \<Rightarrow> HardwareType \<Rightarrow> real" where
  "spec_PerformanceBaseline SEVEN_B CPU = 3"
| "spec_PerformanceBaseline SEVEN_B GPU_4GB = 8"
| "spec_PerformanceBaseline SEVEN_B GPU_8GB = 15"
| "spec_PerformanceBaseline SEVEN_B GPU_12GB = 25"
| "spec_PerformanceBaseline SEVEN_B GPU_16GB = 35"
| "spec_PerformanceBaseline SEVEN_B GPU_24GB = 45"
| "spec_PerformanceBaseline SEVEN_B GPU_32GB = 50"
| "spec_PerformanceBaseline THIRTEEN_B CPU = 1"
| "spec_PerformanceBaseline THIRTEEN_B GPU_4GB = 3"
| "spec_PerformanceBaseline THIRTEEN_B GPU_8GB = 6"
| "spec_PerformanceBaseline THIRTEEN_B GPU_12GB = 10"
| "spec_PerformanceBaseline THIRTEEN_B GPU_16GB = 15"
| "spec_PerformanceBaseline THIRTEEN_B GPU_24GB = 25"
| "spec_PerformanceBaseline THIRTEEN_B GPU_32GB = 30"
| "spec_PerformanceBaseline GPT4 h = 0.1"

fun spec_inputPrice :: "ModelSize \<Rightarrow> real" where
  "spec_inputPrice SEVEN_B = 0"
| "spec_inputPrice THIRTEEN_B = 0.0002"
| "spec_inputPrice GPT4 = 0.01"

fun spec_outputPrice :: "ModelSize \<Rightarrow> real" where
  "spec_outputPrice SEVEN_B = 0"
| "spec_outputPrice THIRTEEN_B = 0.0004"
| "spec_outputPrice GPT4 = 0.03"

fun spec_vramGB :: "HardwareType \<Rightarrow> real" where
  "spec_vramGB CPU = 0"
| "spec_vramGB GPU_4GB = 4"
| "spec_vramGB GPU_8GB = 8"
| "spec_vramGB GPU_12GB = 12"
| "spec_vramGB GPU_16GB = 16"
| "spec_vramGB GPU_24GB = 24"
| "spec_vramGB GPU_32GB = 32"

fun spec_watts :: "HardwareType \<Rightarrow> real" where
  "spec_watts CPU = 65"
| "spec_watts GPU_4GB = 75"
| "spec_watts GPU_8GB = 220"
| "spec_watts GPU_12GB = 320"
| "spec_watts GPU_16GB = 320"
| "spec_watts GPU_24GB = 450"
| "spec_watts GPU_32GB = 450"

fun spec_costUSD :: "HardwareType \<Rightarrow> real" where
  "spec_costUSD CPU = 200"
| "spec_costUSD GPU_4GB = 150"
| "spec_costUSD GPU_8GB = 500"
| "spec_costUSD GPU_12GB = 700"
| "spec_costUSD GPU_16GB = 1200"
| "spec_costUSD GPU_24GB = 1600"
| "spec_costUSD GPU_32GB = 1600"

text \<open>The contribution of one recommendation rule: its string when its condition holds.\<close>

definition rec_if :: "bool \<Rightarrow> string \<Rightarrow> string list" where
  "rec_if c s = (if c then [s] else [])"

section \<open>Properties\<close>

subsection \<open>Table lookups and closed forms\<close>

lemma getitem_model_specs:
  "getitem model_specs SEVEN_B = Inr \<lparr>parameters = 7300000000, layers = 32, heads = 32,
      head_dim = 128, context_length = 8192, vocabulary_size = 32000\<rparr>"
  "getitem model_specs THIRTEEN_B = Inr \<lparr>parameters = 13000000000, layers = 40, heads = 40,
      head_dim = 128, context_length = 4096, vocabulary_size = 32000\<rparr>"
  "getitem model_specs GPT4 = Inr \<lparr>parameters = 1760000000000, layers = 96, heads = 96,
      head_dim = 128, context_length = 8192, vocabulary_size = 100000\<rparr>"
  by (simp_all add: getitem_def model_specs_def)

lemma and_then_Inr [simp]: "and_then (Inr x) f = f x"
  by (simp add: and_then_def)

lemma and_then_Inl [simp]: "and_then (Inl e) f = Inl e"
  by (simp add: and_then_def)

lemma memory_closed: "calculate_memory_usage m t b h = Inr (spec_memory_gb m t b)"
  by (cases m) (simp_all add: calculate_memory_usage_def getitem_model_specs Let_def
        spec_memory_gb_def field_simps)

lemma getitem_hardware_specs:
  "\<exists>hw. getitem hardware_specs h = Inr hw \<and> vram_gb hw = spec_vramGB h
        \<and> power_watts hw = spec_watts h \<and> cost_usd hw = spec_costUSD h"
  by (cases h) (simp_all add: getitem_def hardware_specs_def)

lemma getitem_performance_baselines:
  "\<exists>row. getitem performance_baselines m = Inr row
         \<and> getitem row h = Inr (spec_PerformanceBaseline m h)"
  by (cases m; cases h) (simp_all add: getitem_def performance_baselines_def)

lemma getitem_api_pricing:
  "\<exists>pricing. getitem api_pricing m = Inr pricing
         \<and> getitem pricing ''input'' = Inr (spec_inputPrice m)
         \<and> getitem pricing ''output'' = Inr (spec_outputPrice m)"
  by (cases m) (simp_all add: getitem_def api_pricing_def)

lemma spec_PerformanceBaseline_pos: "0 < spec_PerformanceBaseline m h"
  by (cases m; cases h) simp_all

lemma getitem_model_specs_ex: "\<exists>specs. getitem model_specs m = Inr specs"
  by (cases m) (simp_all add: getitem_model_specs)

lemma latency_API: "calculate_latency m t b h API = Inr (2.0 + real_of_int t / 50)"
  by (simp add: calculate_latency_def)

lemma latency_LOCAL:
  "calculate_latency m t b h LOCAL = Inr ((real_of_int t / spec_PerformanceBaseline m h) * 1.1)"
proof -
  obtain specs where s: "getitem model_specs m = Inr specs"
    using getitem_model_specs_ex by blast
  obtain hw where h: "getitem hardware_specs h = Inr hw"
    using getitem_hardware_specs by blast
  obtain row where r: "getitem performance_baselines m = Inr row"
      "getitem row h = Inr (spec_PerformanceBaseline m h)"
    using getitem_performance_baselines by blast
  have nz: "spec_PerformanceBaseline m h \<noteq> 0"
    using spec_PerformanceBaseline_pos [of m h] by simp
  show ?thesis
    by (simp add: calculate_latency_def s h r truediv_def nz)
qed

lemma cost_API:
  "calculate_cost m t b h API =
     Inr ((real_of_int t * 0.7 / 1000) * spec_inputPrice m
          + (real_of_int t * 0.3 / 1000) * spec_outputPrice m)"
proof -
  obtain pricing where p: "getitem api_pricing m = Inr pricing"
      "getitem pricing ''input'' = Inr (spec_inputPrice m)"
      "getitem pricing ''output'' = Inr (spec_outputPrice m)"
    using getitem_api_pricing by blast
  show ?thesis
    by (simp add: calculate_cost_def p Let_def)
qed

lemma cost_LOCAL:
  "calculate_cost m t b h LOCAL =
     Inr (((spec_costUSD h / (3 * 365 * 8) + (spec_watts h / 1000) * 0.12) / 3600)
          * ((real_of_int t / spec_PerformanceBaseline m h) * 1.1))"
proof -
  obtain hw where h: "getitem hardware_specs h = Inr hw"
      "power_watts hw = spec_watts h" "cost_usd hw = spec_costUSD h"
    using getitem_hardware_specs by blast
  show ?thesis
    by (simp add: calculate_cost_def h latency_LOCAL Let_def)
qed

lemma gpu_probe_exceeds_vram:
  "h \<noteq> CPU \<Longrightarrow> spec_vramGB h < spec_memory_gb m 2048 1"
  by (cases m; cases h) (simp_all add: spec_memory_gb_def)

lemma compat_closed:
  "check_hardware_compatibility m h =
     Inr (h = CPU \<or> spec_memory_gb m 2048 1 \<le> spec_vramGB h)"
proof (cases "h = CPU")
  case True
  then show ?thesis by (simp add: check_hardware_compatibility_def)
next
  case False
  obtain hw where h: "getitem hardware_specs h = Inr hw" "vram_gb hw = spec_vramGB h"
    using getitem_hardware_specs by blast
  show ?thesis
    using False by (simp add: check_hardware_compatibility_def memory_closed h)
qed

lemma compat_eq: "check_hardware_compatibility m h = Inr (h = CPU)"
proof (cases "h = CPU")
  case True
  then show ?thesis by (simp add: compat_closed)
next
  case False
  then have "spec_vramGB h < spec_memory_gb m 2048 1"
    by (rule gpu_probe_exceeds_vram)
  with False show ?thesis by (simp add: compat_closed)
qed

lemma append_if_rec_if: "append_if c s recs = recs @ rec_if c s"
  by (simp add: append_if_def rec_if_def)

lemma recs_closed:
  "generate_recommendations m t b h d = Inr
     (rec_if (d = LOCAL \<and> check_hardware_compatibility m h = Inr False)
        ''Hardware incompatible - consider GPU with more VRAM''
      @ rec_if (d = LOCAL \<and> h = CPU \<and> m \<noteq> SEVEN_B)
        ''CPU inference will be very slow for this model size''
      @ rec_if (d = LOCAL \<and> t > 2048)
        ''Long sequences may cause memory issues''
      @ rec_if (d = API \<and> m = GPT4 \<and> t > 1000)
        ''GPT-4 costs can be high for long sequences''
      @ rec_if (d = API \<and> b > 1)
        ''API deployment typically doesn't support batching''
      @ rec_if (b > 4)
        ''Large batch sizes may cause memory issues''
      @ rec_if (t > 4096)
        ''Consider chunking long sequences'')"
proof (cases d)
  case LOCAL
  then show ?thesis
    by (simp add: generate_recommendations_def compat_eq append_if_rec_if Let_def)
       (simp add: rec_if_def)
next
  case API
  then show ?thesis
    by (simp add: generate_recommendations_def append_if_rec_if Let_def)
       (simp add: rec_if_def)
qed

lemma ModelSize_of_value: "ModelSize_of (ModelSize_value m) = Inr m"
  by (cases m) (simp_all add: ModelSize_of_def)

lemma HardwareType_of_value: "HardwareType_of (HardwareType_value h) = Inr h"
  by (cases h) (simp_all add: HardwareType_of_def)

lemma DeploymentMode_of_value: "DeploymentMode_of (DeploymentMode_value d) = Inr d"
  by (cases d) (simp_all add: DeploymentMode_of_def)







lemma latency_closed:
  "calculate_latency m t b h d =
     Inr (if d = API then 2.0 + real_of_int t / 50
          else (real_of_int t / spec_PerformanceBaseline m h) * 1.1)"
  by (cases d) (simp_all add: latency_API latency_LOCAL)

lemma cost_closed:
  "calculate_cost m t b h d =
     Inr (if d = API then (real_of_int t * 0.7 / 1000) * spec_inputPrice m
                          + (real_of_int t * 0.3 / 1000) * spec_outputPrice m
          else ((spec_costUSD h / (3 * 365 * 8) + (spec_watts h / 1000) * 0.12) / 3600)
               * ((real_of_int t / spec_PerformanceBaseline m h) * 1.1))"
  by (cases d) (simp_all add: cost_API cost_LOCAL)

lemma calculate_valid:
  assumes "ModelSize_of ms = Inr m" and "HardwareType_of hs = Inr h"
    and "DeploymentMode_of ds = Inr d" and "0 < t" and "0 < b"
  shows "calculate ms t b hs ds = Inr
     \<lparr>latency_seconds = projr (calculate_latency m t b h d),
      memory_usage_gb = projr (calculate_memory_usage m t b h),
      cost_per_request_usd = projr (calculate_cost m t b h d),
      hardware_compatible = projr (check_hardware_compatibility m h),
      recommendations = projr (generate_recommendations m t b h d)\<rparr>"
  using assms
  by (simp add: calculate_def memory_closed latency_closed cost_closed compat_eq recs_closed)

subsection \<open>The entry point on valid and invalid input\<close>

lemma calculate_values:
  assumes "0 < t" and "0 < b"
  shows "calculate (ModelSize_value m) t b (HardwareType_value h) (DeploymentMode_value d) = Inr
     \<lparr>latency_seconds = projr (calculate_latency m t b h d),
      memory_usage_gb = projr (calculate_memory_usage m t b h),
      cost_per_request_usd = projr (calculate_cost m t b h d),
      hardware_compatible = projr (check_hardware_compatibility m h),
      recommendations = projr (generate_recommendations m t b h d)\<rparr>"
  using assms
  by (intro calculate_valid ModelSize_of_value HardwareType_of_value DeploymentMode_of_value)











subsection \<open>The claims\<close>

text \<open>
  Claim C1. For every model, every positive token count \<open>t\<close> and every positive batch
  size \<open>b\<close>, \<open>calculate_memory_usage\<close> returns
  \<open>((parameters * 2) + (2 * layers * heads * headDim * min t contextLength * b * 2)
     + (t * parameters * 2 * 0.1)) / 2^30 * 1.2\<close>
  with the canonical constants of the model: the token count is clamped to the context
  length in the KV-cache term only, the activation term uses the raw token count, and the
  hardware argument does not change the result.
\<close>

theorem memory_usage_formula:
  assumes "0 < t" and "0 < b"
  shows "calculate_memory_usage m t b h =
           Inr ((real_of_int (spec_parameters m * 2)
                 + real_of_int (2 * spec_layers m * spec_heads m * spec_headDim m
                                * min t (spec_contextLength m) * b * 2)
                 + real_of_int t * real_of_int (spec_parameters m) * 2 * 0.1) / 2 ^ 30 * 1.2)
         \<and> calculate_memory_usage m t b h = calculate_memory_usage m t b h'"
  by (simp add: memory_closed spec_memory_gb_def)

theorem memory_usage_formula_witness:
  "(0::int) < 10000 \<and> (0::int) < 3 \<and>
   calculate_memory_usage SEVEN_B 10000 3 GPU_16GB =
     Inr ((14600000000 + 2 * 32 * 32 * 128 * 8192 * 3 * 2 + 10000 * 7300000000 * 2 * 0.1)
          / 2 ^ 30 * 1.2)"
  using memory_usage_formula [of 10000 3 SEVEN_B GPU_16GB CPU] by simp

text \<open>
  Claim C2. For a request with positive token count \<open>t\<close> (and positive batch size),
  \<open>calculate_latency\<close> returns exactly \<open>2.0 + t / 50\<close> in API mode, whatever the model,
  hardware and batch size, and exactly \<open>(t / baseline) * 1.1\<close> in LOCAL mode, where
  \<open>baseline\<close> is the entry of the performance baseline table for the model and the
  hardware, which is the value the specification prints.
\<close>

theorem latency_formula:
  assumes "0 < t" and "0 < b"
  shows "calculate_latency m t b h API = Inr (2.0 + real_of_int t / 50)
       \<and> calculate_latency m t b h LOCAL
           = Inr ((real_of_int t / spec_PerformanceBaseline m h) * 1.1)
       \<and> (\<exists>row. performance_baselines m = Some row
                \<and> row h = Some (spec_PerformanceBaseline m h))"
proof -
  obtain row where r: "getitem performance_baselines m = Inr row"
      "getitem row h = Inr (spec_PerformanceBaseline m h)"
    using getitem_performance_baselines by blast
  then have "performance_baselines m = Some row \<and> row h = Some (spec_PerformanceBaseline m h)"
    by (auto simp: getitem_def split: option.splits)
  then show ?thesis
    using latency_API latency_LOCAL by blast
qed

theorem latency_formula_witness:
  "(0::int) < 1000 \<and> (0::int) < 1
   \<and> calculate_latency SEVEN_B 1000 1 GPU_16GB API = Inr 22
   \<and> calculate_latency SEVEN_B 1000 1 GPU_16GB LOCAL = Inr (220 / 7)"
  using latency_formula [of 1000 1 SEVEN_B GPU_16GB] by simp

text \<open>
  Claim C3. For a request with positive token count \<open>t\<close> (and positive batch size),
  \<open>calculate_cost\<close> returns \<open>(t * 0.7 / 1000) * inputPrice + (t * 0.3 / 1000) * outputPrice\<close>
  in API mode, with the prices of the model, and in LOCAL mode
  \<open>((costUSD / (3 * 365 * 8) + (watts / 1000) * 0.12) / 3600) * L\<close>, where \<open>L\<close> is the
  latency that \<open>calculate_latency\<close> returns for the same request.
\<close>

theorem cost_formula:
  assumes "0 < t" and "0 < b"
  shows "calculate_cost m t b h API =
           Inr ((real_of_int t * 0.7 / 1000) * spec_inputPrice m
                + (real_of_int t * 0.3 / 1000) * spec_outputPrice m)
       \<and> (\<exists>L. calculate_latency m t b h LOCAL = Inr L
              \<and> calculate_cost m t b h LOCAL =
                  Inr (((spec_costUSD h / (3 * 365 * 8) + (spec_watts h / 1000) * 0.12) / 3600)
                       * L))"
  using cost_API cost_LOCAL latency_LOCAL by blast

theorem cost_formula_witness:
  "(0::int) < 500 \<and> (0::int) < 1
   \<and> calculate_cost THIRTEEN_B 500 1 GPU_8GB API = Inr 0.00013
   \<and> calculate_latency THIRTEEN_B 500 1 GPU_8GB LOCAL = Inr (275 / 3)
   \<and> calculate_cost THIRTEEN_B 500 1 GPU_8GB LOCAL
       = Inr (((500 / (3 * 365 * 8) + (220 / 1000) * 0.12) / 3600) * (275 / 3))"
proof -
  from cost_formula [of 500 1 THIRTEEN_B GPU_8GB] obtain L where
    api: "calculate_cost THIRTEEN_B 500 1 GPU_8GB API = Inr 0.00013" and
    lat: "calculate_latency THIRTEEN_B 500 1 GPU_8GB LOCAL = Inr L" and
    loc: "calculate_cost THIRTEEN_B 500 1 GPU_8GB LOCAL
            = Inr (((500 / (3 * 365 * 8) + (220 / 1000) * 0.12) / 3600) * L)"
    by auto
  from lat have "L = 275 / 3"
    by (simp add: latency_LOCAL)
  with api lat loc show ?thesis
    by simp
qed

text \<open>
  Claim C4. The compatibility check depends on the model and the hardware only. For CPU
  it returns true for every model; for every GPU class it returns true iff the VRAM of
  the hardware is at least the memory that \<open>calculate_memory_usage\<close> returns for the fixed
  probe of 2048 tokens and batch size 1. Hence the flag \<open>hardware_compatible\<close> of the
  result of \<open>calculate\<close> is the same for all positive token counts (and batch sizes and
  deployment modes) of a request on the same model and hardware.
\<close>

theorem compatibility_fixed_probe:
  "check_hardware_compatibility m CPU = Inr True
   \<and> (h \<noteq> CPU \<longrightarrow>
        (\<exists>required_memory hardware.
            calculate_memory_usage m 2048 1 h = Inr required_memory
          \<and> hardware_specs h = Some hardware
          \<and> check_hardware_compatibility m h
              = Inr (vram_gb hardware \<ge> required_memory)))
   \<and> (0 < t \<and> 0 < b \<and> 0 < t' \<and> 0 < b' \<longrightarrow>
        (\<exists>r r'. calculate (ModelSize_value m) t b (HardwareType_value h)
                    (DeploymentMode_value d) = Inr r
               \<and> calculate (ModelSize_value m) t' b' (HardwareType_value h)
                    (DeploymentMode_value d') = Inr r'
               \<and> check_hardware_compatibility m h = Inr (hardware_compatible r)
               \<and> hardware_compatible r = hardware_compatible r'))"
proof (intro conjI impI)
  show "check_hardware_compatibility m CPU = Inr True"
    by (simp add: check_hardware_compatibility_def)
next
  assume gpu: "h \<noteq> CPU"
  obtain hw where hw: "getitem hardware_specs h = Inr hw"
    using getitem_hardware_specs by blast
  then have some: "hardware_specs h = Some hw"
    by (auto simp: getitem_def split: option.splits)
  have "check_hardware_compatibility m h = Inr (vram_gb hw \<ge> spec_memory_gb m 2048 1)"
    using gpu by (simp add: check_hardware_compatibility_def memory_closed hw)
  with some show "\<exists>required_memory hardware.
            calculate_memory_usage m 2048 1 h = Inr required_memory
          \<and> hardware_specs h = Some hardware
          \<and> check_hardware_compatibility m h
              = Inr (vram_gb hardware \<ge> required_memory)"
    using memory_closed by blast
next
  assume pos: "0 < t \<and> 0 < b \<and> 0 < t' \<and> 0 < b'"
  have r: "calculate (ModelSize_value m) t b (HardwareType_value h) (DeploymentMode_value d)
      = Inr \<lparr>latency_seconds = projr (calculate_latency m t b h d),
             memory_usage_gb = projr (calculate_memory_usage m t b h),
             cost_per_request_usd = projr (calculate_cost m t b h d),
             hardware_compatible = projr (check_hardware_compatibility m h),
             recommendations = projr (generate_recommendations m t b h d)\<rparr>"
    using pos
    by (intro calculate_valid ModelSize_of_value HardwareType_of_value DeploymentMode_of_value)
       simp_all
  have r': "calculate (ModelSize_value m) t' b' (HardwareType_value h) (DeploymentMode_value d')
      = Inr \<lparr>latency_seconds = projr (calculate_latency m t' b' h d'),
             memory_usage_gb = projr (calculate_memory_usage m t' b' h),
             cost_per_request_usd = projr (calculate_cost m t' b' h d'),
             hardware_compatible = projr (check_hardware_compatibility m h),
             recommendations = projr (generate_recommendations m t' b' h d')\<rparr>"
    using pos
    by (intro calculate_valid ModelSize_of_value HardwareType_of_value DeploymentMode_of_value)
       simp_all
  show "\<exists>r r'. calculate (ModelSize_value m) t b (HardwareType_value h)
                    (DeploymentMode_value d) = Inr r
               \<and> calculate (ModelSize_value m) t' b' (HardwareType_value h)
                    (DeploymentMode_value d') = Inr r'
               \<and> check_hardware_compatibility m h = Inr (hardware_compatible r)
               \<and> hardware_compatible r = hardware_compatible r'"
    unfolding r r' by (simp add: compat_eq)
qed

theorem compatibility_fixed_probe_witness:
  "check_hardware_compatibility SEVEN_B CPU = Inr True
   \<and> GPU_16GB \<noteq> CPU
   \<and> calculate_memory_usage SEVEN_B 2048 1 GPU_16GB = Inr (17611838331 / 5242880)
   \<and> check_hardware_compatibility SEVEN_B GPU_16GB = Inr False
   \<and> (0::int) < 5 \<and> (0::int) < 1 \<and> (0::int) < 9000
   \<and> map_sum id hardware_compatible (calculate ''7B'' 5 1 ''GPU_16GB'' ''local'')
       = map_sum id hardware_compatible (calculate ''7B'' 9000 1 ''GPU_16GB'' ''local'')"
proof -
  from compatibility_fixed_probe [of SEVEN_B GPU_16GB 5 1 9000 1 LOCAL LOCAL]
  obtain rm hw r r' where
    cpu: "check_hardware_compatibility SEVEN_B CPU = Inr True" and
    mem: "calculate_memory_usage SEVEN_B 2048 1 GPU_16GB = Inr rm" and
    hw: "hardware_specs GPU_16GB = Some hw" and
    chk: "check_hardware_compatibility SEVEN_B GPU_16GB = Inr (vram_gb hw \<ge> rm)" and
    r: "calculate ''7B'' 5 1 ''GPU_16GB'' ''local'' = Inr r" and
    r': "calculate ''7B'' 9000 1 ''GPU_16GB'' ''local'' = Inr r'" and
    eq: "hardware_compatible r = hardware_compatible r'"
    by auto
  from mem have rm: "rm = 17611838331 / 5242880"
    by (simp add: memory_closed spec_memory_gb_def)
  from hw have "vram_gb hw = 16"
    by (auto simp: hardware_specs_def)
  with cpu mem chk r r' eq rm show ?thesis
    by simp
qed

text \<open>
  Claim C5, evaluated on the code. \<open>calculate("7B", 1000, 1, "GPU_16GB", "local")\<close> returns
  the latency \<open>1000 / 35 * 1.1\<close>, but \<open>hardware_compatible\<close> is false: the memory required
  for the probe of 2048 tokens is \<open>17611838331 / 5242880\<close> GB (about 3359 GB), far above
  16 GB, because the activation term multiplies the tenth of the weights by the token
  count.
\<close>

theorem scenario_7B_GPU_16GB_local:
  "calculate ''7B'' 1000 1 ''GPU_16GB'' ''local'' =
     Inr \<lparr>latency_seconds = 1000 / 35 * 1.1,
          memory_usage_gb = 1728661275 / 1048576,
          cost_per_request_usd = 44011 / 28743750,
          hardware_compatible = False,
          recommendations = [''Hardware incompatible - consider GPU with more VRAM'']\<rparr>
   \<and> calculate_memory_usage SEVEN_B 2048 1 GPU_16GB = Inr (17611838331 / 5242880)
   \<and> (16::real) < 17611838331 / 5242880"
proof -
  have m: "ModelSize_of ''7B'' = Inr SEVEN_B"
    by (simp add: ModelSize_of_def)
  have h: "HardwareType_of ''GPU_16GB'' = Inr GPU_16GB"
    by (simp add: HardwareType_of_def)
  have d: "DeploymentMode_of ''local'' = Inr LOCAL"
    by (simp add: DeploymentMode_of_def)
  have "calculate ''7B'' 1000 1 ''GPU_16GB'' ''local'' = Inr
     \<lparr>latency_seconds = projr (calculate_latency SEVEN_B 1000 1 GPU_16GB LOCAL),
      memory_usage_gb = projr (calculate_memory_usage SEVEN_B 1000 1 GPU_16GB),
      cost_per_request_usd = projr (calculate_cost SEVEN_B 1000 1 GPU_16GB LOCAL),
      hardware_compatible = projr (check_hardware_compatibility SEVEN_B GPU_16GB),
      recommendations = projr (generate_recommendations SEVEN_B 1000 1 GPU_16GB LOCAL)\<rparr>"
    by (rule calculate_valid [OF m h d]) simp_all
  then show ?thesis
    by (simp add: latency_closed memory_closed cost_closed compat_eq recs_closed rec_if_def
          spec_memory_gb_def)
qed






text \<open>
  Claim C8. The recommendations are the concatenation, in this order, of the strings of
  seven rules, each present iff its condition holds: (1) LOCAL and hardware incompatible,
  (2) LOCAL, CPU and model other than 7B, (3) LOCAL and tokens > 2048, (4) API, GPT-4 and
  tokens > 1000, (5) API and batch size > 1, (6) batch size > 4, (7) tokens > 4096.
  Rules 1 to 3 fire in LOCAL mode only, rules 4 and 5 in API mode only, rules 6 and 7 in
  either mode.
\<close>

theorem recommendation_rules:
  "generate_recommendations m t b h d = Inr
     ((if d = LOCAL \<and> check_hardware_compatibility m h = Inr False
         then [''Hardware incompatible - consider GPU with more VRAM''] else [])
      @ (if d = LOCAL \<and> h = CPU \<and> m \<noteq> SEVEN_B
         then [''CPU inference will be very slow for this model size''] else [])
      @ (if d = LOCAL \<and> t > 2048
         then [''Long sequences may cause memory issues''] else [])
      @ (if d = API \<and> m = GPT4 \<and> t > 1000
         then [''GPT-4 costs can be high for long sequences''] else [])
      @ (if d = API \<and> b > 1
         then [''API deployment typically doesn't support batching''] else [])
      @ (if b > 4
         then [''Large batch sizes may cause memory issues''] else [])
      @ (if t > 4096
         then [''Consider chunking long sequences''] else []))"
  unfolding recs_closed rec_if_def ..

theorem recommendation_rules_witness:
  "generate_recommendations GPT4 5000 5 CPU LOCAL = Inr
     [''CPU inference will be very slow for this model size'',
      ''Long sequences may cause memory issues'',
      ''Large batch sizes may cause memory issues'',
      ''Consider chunking long sequences'']
   \<and> generate_recommendations GPT4 5000 5 CPU API = Inr
     [''GPT-4 costs can be high for long sequences'',
      ''API deployment typically doesn't support batching'',
      ''Large batch sizes may cause memory issues'',
      ''Consider chunking long sequences'']
   \<and> generate_recommendations SEVEN_B 100 1 GPU_4GB LOCAL = Inr
     [''Hardware incompatible - consider GPU with more VRAM'']"
  using recommendation_rules [of GPT4 5000 5 CPU LOCAL]
    recommendation_rules [of GPT4 5000 5 CPU API]
    recommendation_rules [of SEVEN_B 100 1 GPU_4GB LOCAL]
  by (simp add: compat_eq)



text \<open>
  Claim C10. In API mode the hardware argument still affects the result. For every model
  and positive tokens and batch size, \<open>calculate\<close> in API mode returns the memory that
  \<open>calculate_memory_usage\<close> computes for the caller's tokens and batch size (the same value
  as in LOCAL mode) and the flag that \<open>check_hardware_compatibility\<close> computes for the
  supplied hardware; two API calls that differ only in the hardware ("CPU" and
  "GPU_16GB") return different flags.
\<close>

theorem api_mode_uses_hardware:
  assumes "0 < t" and "0 < b"
  shows "(\<exists>r_api r_local.
            calculate (ModelSize_value m) t b (HardwareType_value h) ''api'' = Inr r_api
          \<and> calculate (ModelSize_value m) t b (HardwareType_value h) ''local'' = Inr r_local
          \<and> calculate_memory_usage m t b h = Inr (memory_usage_gb r_api)
          \<and> memory_usage_gb r_api = memory_usage_gb r_local
          \<and> check_hardware_compatibility m h = Inr (hardware_compatible r_api))
       \<and> (\<exists>r_cpu r_gpu.
            calculate (ModelSize_value m) t b ''CPU'' ''api'' = Inr r_cpu
          \<and> calculate (ModelSize_value m) t b ''GPU_16GB'' ''api'' = Inr r_gpu
          \<and> hardware_compatible r_cpu \<and> \<not> hardware_compatible r_gpu)"
proof -
  note api = calculate_values [OF assms, of m _ API, simplified]
  note loc = calculate_values [OF assms, of m _ LOCAL, simplified]
  have "\<exists>r_api r_local.
            calculate (ModelSize_value m) t b (HardwareType_value h) ''api'' = Inr r_api
          \<and> calculate (ModelSize_value m) t b (HardwareType_value h) ''local'' = Inr r_local
          \<and> calculate_memory_usage m t b h = Inr (memory_usage_gb r_api)
          \<and> memory_usage_gb r_api = memory_usage_gb r_local
          \<and> check_hardware_compatibility m h = Inr (hardware_compatible r_api)"
    unfolding api [of h] loc [of h] by (simp add: memory_closed compat_eq)
  moreover have "\<exists>r_cpu r_gpu.
            calculate (ModelSize_value m) t b ''CPU'' ''api'' = Inr r_cpu
          \<and> calculate (ModelSize_value m) t b ''GPU_16GB'' ''api'' = Inr r_gpu
          \<and> hardware_compatible r_cpu \<and> \<not> hardware_compatible r_gpu"
    using api [of CPU] api [of GPU_16GB] by (simp add: compat_eq)
  ultimately show ?thesis ..
qed

theorem api_mode_uses_hardware_witness:
  "(0::int) < 500 \<and> (0::int) < 2
   \<and> map_sum id hardware_compatible (calculate ''13B'' 500 2 ''CPU'' ''api'') = Inr True
   \<and> map_sum id hardware_compatible (calculate ''13B'' 500 2 ''GPU_16GB'' ''api'') = Inr False
   \<and> map_sum id memory_usage_gb (calculate ''13B'' 500 2 ''GPU_8GB'' ''api'')
       = calculate_memory_usage THIRTEEN_B 500 2 GPU_8GB"
  using api_mode_uses_hardware [of 500 2 THIRTEEN_B GPU_8GB] by auto

end
